theory Spec2Isabelle
  imports Main
begin

section \<open>JavaScript values\<close>

text \<open>
  The logger is plain JavaScript: its functions accept any value, test truthiness,
  compare with \<^verbatim>\<open>===\<close> against string literals and ask \<^verbatim>\<open>typeof\<close>. Values are
  modelled as a datatype. Numbers are restricted to integers (no function of the
  logger computes with fractions); an object is its list of own enumerable
  properties in the order \<^verbatim>\<open>Object.keys\<close> reports them. Prototypes are not
  modelled: the logger reads own properties only.
\<close>

datatype jsval =
    JUndefined
  | JNull
  | JBool bool
  | JNum int
  | JStr string
  | JArr "jsval list"
  | JObj "(string \<times> jsval) list"

datatype error = TypeError

text \<open>\<^verbatim>\<open>typeof x\<close>: null and arrays are objects.\<close>

fun typeof :: "jsval \<Rightarrow> string" where
  "typeof JUndefined = ''undefined''"
| "typeof JNull = ''object''"
| "typeof (JBool b) = ''boolean''"
| "typeof (JNum n) = ''number''"
| "typeof (JStr s) = ''string''"
| "typeof (JArr vs) = ''object''"
| "typeof (JObj ps) = ''object''"

text \<open>ToBoolean, as \<^verbatim>\<open>if (x)\<close>, \<^verbatim>\<open>!x\<close> and \<^verbatim>\<open>x && y\<close> use it.\<close>

fun truthy :: "jsval \<Rightarrow> bool" where
  "truthy JUndefined = False"
| "truthy JNull = False"
| "truthy (JBool b) = b"
| "truthy (JNum n) = (n \<noteq> 0)"
| "truthy (JStr s) = (s \<noteq> [])"
| "truthy (JArr vs) = True"
| "truthy (JObj ps) = True"

text \<open>
  The property read \<^verbatim>\<open>x.cellularGeneration\<close>: a TypeError on null and undefined, the
  property's value on an object that has it, undefined on everything else.
\<close>

fun cellularGeneration_of :: "jsval \<Rightarrow> error + jsval" where
  "cellularGeneration_of JUndefined = Inl TypeError"
| "cellularGeneration_of JNull = Inl TypeError"
| "cellularGeneration_of (JObj ps) =
     (case map_of ps ''cellularGeneration'' of None \<Rightarrow> Inr JUndefined | Some v \<Rightarrow> Inr v)"
| "cellularGeneration_of v = Inr JUndefined"

section \<open>The connectivity classifier\<close>

text \<open>
  \<^verbatim>\<open>checkUserIsBackOnFullConnection\<close> (logger.js, lines 22 to 50). The conjunction of
  lines 40 to 43 evaluates left to right and stops at the first falsy operand, so the
  current details are read only when the previous generation is truthy and not 4g.
\<close>

definition checkUserIsBackOnFullConnection ::
  "jsval \<Rightarrow> jsval \<Rightarrow> jsval \<Rightarrow> jsval \<Rightarrow> error + bool" where
  "checkUserIsBackOnFullConnection prevConnectionType prevConnectionDetails
       connectionType connectionDetails =
     (if \<not> truthy prevConnectionType \<and> connectionType = JStr ''wifi'' then Inr True
      else if prevConnectionType = JStr ''none'' \<and> connectionType = JStr ''wifi'' then Inr True
      else if prevConnectionType = JStr ''unknow'' \<and> connectionType = JStr ''wifi'' then Inr True
      else if prevConnectionType = JStr ''cellular'' then
        (case cellularGeneration_of prevConnectionDetails of
           Inl e \<Rightarrow> Inl e
         | Inr prevGeneration \<Rightarrow>
             if truthy prevGeneration \<and> prevGeneration \<noteq> JStr ''4g'' then
               (case cellularGeneration_of connectionDetails of
                  Inl e \<Rightarrow> Inl e
                | Inr generation \<Rightarrow>
                    if truthy generation \<and> generation = JStr ''4g'' then Inr True
                    else Inr False)
             else Inr False)
      else Inr False)"

text \<open>
  A cellular generation as the network-status source reports it: absent (null, or no
  such property) or a non-empty name such as 2g, 3g, 4g.
\<close>

fun wf_generation :: "jsval \<Rightarrow> bool" where
  "wf_generation JNull = True"
| "wf_generation JUndefined = True"
| "wf_generation (JStr s) = (s \<noteq> [])"
| "wf_generation v = False"

fun generation_present :: "jsval \<Rightarrow> bool" where
  "generation_present JNull = False"
| "generation_present JUndefined = False"
| "generation_present v = True"

fun generation_in :: "(string \<times> jsval) list \<Rightarrow> jsval" where
  "generation_in ps =
     (case map_of ps ''cellularGeneration'' of None \<Rightarrow> JUndefined | Some v \<Rightarrow> v)"

section \<open>Objects as ordered property lists\<close>

text \<open>
  \<^verbatim>\<open>Object.keys\<close>, the spread \<^verbatim>\<open>{...x}\<close> and \<^verbatim>\<open>JSON.stringify\<close> all visit the own
  properties of an object in one order: array indices first, ascending, then every other
  string key in the order of its creation. A write \<^verbatim>\<open>o[k] = v\<close> to an existing key
  keeps the key's place.
\<close>

type_synonym props = "(string \<times> jsval) list"

definition digit_chars :: string where
  "digit_chars = ''0123456789''"

fun show_nat :: "nat \<Rightarrow> string" where
  "show_nat n =
     (if n < 10 then [digit_chars ! n] else show_nat (n div 10) @ [digit_chars ! (n mod 10)])"

declare show_nat.simps [simp del]

text \<open>Decimal digits with a sign: how a number of magnitude below \<open>10^21\<close> is rendered.\<close>

definition show_int :: "int \<Rightarrow> string" where
  "show_int i = (if i < 0 then CHR ''-'' # show_nat (nat (- i)) else show_nat (nat i))"

fun digit_value :: "char \<Rightarrow> nat" where
  "digit_value c = length (takeWhile (\<lambda>d. d \<noteq> c) digit_chars)"

definition digits_value :: "string \<Rightarrow> nat" where
  "digits_value k = foldl (\<lambda>a c. 10 * a + digit_value c) 0 k"

text \<open>An array index is the canonical decimal text of an integer below \<open>2^32 - 1\<close>.\<close>

definition is_array_index :: "string \<Rightarrow> bool" where
  "is_array_index k =
     (k \<noteq> [] \<and> list_all (\<lambda>c. c \<in> set digit_chars) k \<and>
      (k = ''0'' \<or> hd k \<noteq> CHR ''0'') \<and> digits_value k < 4294967295)"

fun obj_insert_index :: "string \<Rightarrow> jsval \<Rightarrow> props \<Rightarrow> props" where
  "obj_insert_index k v [] = [(k, v)]"
| "obj_insert_index k v ((k', v') # ps) =
     (if is_array_index k' \<and> digits_value k' < digits_value k
      then (k', v') # obj_insert_index k v ps
      else (k, v) # (k', v') # ps)"

text \<open>
  The assignment \<^verbatim>\<open>o[k] = v\<close> on a plain object. An own property is updated in its
  place. Where there is none, the key \<^verbatim>\<open>__proto__\<close> reaches the setter the object
  inherits, which creates no own property; every other key creates one.
\<close>

definition obj_set :: "string \<Rightarrow> jsval \<Rightarrow> props \<Rightarrow> props" where
  "obj_set k v ps =
     (if k \<in> fst ` set ps then map (\<lambda>(k', v'). if k' = k then (k', v) else (k', v')) ps
      else if k = ''__proto__'' then ps
      else if is_array_index k then obj_insert_index k v ps
      else ps @ [(k, v)])"

text \<open>The read \<^verbatim>\<open>o[k]\<close> of an own property: undefined when there is none.\<close>

definition prop_get :: "props \<Rightarrow> string \<Rightarrow> jsval" where
  "prop_get ps k = (case map_of ps k of None \<Rightarrow> JUndefined | Some v \<Rightarrow> v)"

text \<open>
  The own enumerable properties of a value: those of an object, the elements of an array
  and the characters of a string under their indices, none for the other primitives.
\<close>

fun own_props :: "jsval \<Rightarrow> props" where
  "own_props (JObj ps) = ps"
| "own_props (JArr vs) = zip (map show_nat [0..<length vs]) vs"
| "own_props (JStr s) = zip (map show_nat [0..<length s]) (map (\<lambda>c. JStr [c]) s)"
| "own_props v = []"

text \<open>\<^verbatim>\<open>Object.keys(x)\<close> throws on null and undefined.\<close>

fun Object_keys :: "jsval \<Rightarrow> error + string list" where
  "Object_keys JUndefined = Inl TypeError"
| "Object_keys JNull = Inl TypeError"
| "Object_keys v = Inr (map fst (own_props v))"

text \<open>An array read \<^verbatim>\<open>ks[i]\<close> used as a property key: out of range it is undefined.\<close>

definition key_at :: "string list \<Rightarrow> nat \<Rightarrow> string" where
  "key_at ks i = (if i < length ks then ks ! i else ''undefined'')"

section \<open>The world outside the logger\<close>

text \<open>
  The persistent key-value store and the log of every call that leaves the module, in
  the order the calls are made.
\<close>

datatype effect =
    NetInfoFetch
  | SendLog jsval jsval jsval
  | BulkSendLog jsval
  | CheckAsyncStorage string
  | SaveInAsyncStorage string string
  | AsyncRemoveItem string
  | ConsoleLog jsval jsval jsval
  | ConsoleWarn string
  | ConsoleError string

record world =
  storage :: "string \<rightharpoonup> string"
  trace :: "effect list"

definition emit :: "effect \<Rightarrow> world \<Rightarrow> world" where
  "emit e w = w\<lparr>trace := trace w @ [e]\<rparr>"

text \<open>The calls made between two worlds.\<close>

definition performed :: "world \<Rightarrow> world \<Rightarrow> effect list" where
  "performed w w' = drop (length (trace w)) (trace w')"

text \<open>An awaited promise settles: it resolves with a value or rejects.\<close>

datatype 'a settled = Resolved 'a | Rejected

text \<open>What the storage helper hands back for a key: \<^verbatim>\<open>false\<close> or the stored text.\<close>

datatype stored = NoItem | Item string

text \<open>A state of the network-status source; \<open>state_type\<close> is its \<^verbatim>\<open>type\<close>.\<close>

record netstate =
  isConnected :: jsval
  state_type :: jsval
  details :: jsval

text \<open>
  The constants the module imports (\<^verbatim>\<open>LOGGER\<close>, \<^verbatim>\<open>MAX_LOCAL_ERROR_LOG_SIZE\<close>), the
  global \<^verbatim>\<open>__DEV__\<close> and three functions of the runtime are parameters:
  \<^verbatim>\<open>JSON.parse\<close> and \<^verbatim>\<open>JSON.stringify\<close>, each \<open>None\<close> when it throws (the second
  gives the text a template literal shows for its result, so \<^verbatim>\<open>undefined\<close> where it
  returns undefined), and the rendering of a number as text.
\<close>

record env =
  DEV :: bool
  LOGGER :: string
  MAX_LOCAL_ERROR_LOG_SIZE :: int
  JSON_parse :: "string \<Rightarrow> jsval option"
  JSON_stringify :: "jsval \<Rightarrow> string option"
  Number_toString :: "int \<Rightarrow> string"

text \<open>ToString, as a template literal applies it to \<^verbatim>\<open>${x}\<close>.\<close>

fun join_comma :: "string list \<Rightarrow> string" where
  "join_comma [] = []"
| "join_comma [s] = s"
| "join_comma (s # t # ss) = s @ '','' @ join_comma (t # ss)"

fun ToString :: "env \<Rightarrow> jsval \<Rightarrow> string" where
  "ToString E JUndefined = ''undefined''"
| "ToString E JNull = ''null''"
| "ToString E (JBool b) = (if b then ''true'' else ''false'')"
| "ToString E (JNum n) = Number_toString E n"
| "ToString E (JStr s) = s"
| "ToString E (JArr vs) =
     join_comma (map (\<lambda>v. if v = JUndefined \<or> v = JNull then [] else ToString E v) vs)"
| "ToString E (JObj ps) = ''[object Object]''"

text \<open>
  What the outside does during one call: the clock's reading as \<^verbatim>\<open>new Date()\<close> renders
  it when used as a property key, how the connectivity probe settles, whether the store
  can be read and written, how the batch send and the removal settle.
\<close>

record outside =
  now :: string
  fetch :: "netstate settled"
  read_fails :: bool
  save_fails :: bool
  bulkSend :: "jsval settled"
  removeItem :: "jsval settled"

text \<open>
  Modelled from the spec: \<^verbatim>\<open>checkAsyncStorage\<close> of helpers/common is not among the
  sources. It is the store's get(key), text or absent, and fails when the store is
  unreachable; the module tests its result against \<^verbatim>\<open>false\<close> for absent.
\<close>

definition checkAsyncStorage :: "outside \<Rightarrow> string \<Rightarrow> world \<Rightarrow> stored settled \<times> world" where
  "checkAsyncStorage out k w =
     (if read_fails out then Rejected
      else Resolved (case storage w k of None \<Rightarrow> NoItem | Some s \<Rightarrow> Item s),
      emit (CheckAsyncStorage k) w)"

text \<open>
  Modelled from the spec: \<^verbatim>\<open>saveInAsyncStorage\<close> of helpers/common is not among the
  sources. It is the store's set(key, text), best effort: a failed write leaves the
  prior state. The module never awaits its result.
\<close>

definition saveInAsyncStorage :: "outside \<Rightarrow> string \<Rightarrow> string \<Rightarrow> world \<Rightarrow> world" where
  "saveInAsyncStorage out k s w =
     emit (SaveInAsyncStorage k s) (if save_fails out then w else w\<lparr>storage := (storage w)(k \<mapsto> s)\<rparr>)"

text \<open>
  Modelled from the spec: \<^verbatim>\<open>asyncRemoveItem\<close> of helpers/common is not among the
  sources. It is the store's remove(key); the module reads a truthy result as the
  error, and on a failure the buffer is left in place.
\<close>

definition asyncRemoveItem :: "outside \<Rightarrow> string \<Rightarrow> world \<Rightarrow> jsval settled \<times> world" where
  "asyncRemoveItem out k w =
     (case removeItem out of
        Rejected \<Rightarrow> (Rejected, emit (AsyncRemoveItem k) w)
      | Resolved e \<Rightarrow>
          (Resolved e,
           emit (AsyncRemoveItem k) (if truthy e then w else w\<lparr>storage := (storage w)(k := None)\<rparr>)))"

text \<open>
  Modelled from the spec: \<^verbatim>\<open>bulkSendLog\<close> of services/logger is not among the
  sources. It is the remote sink's batch send: it reports success or failure, or fails,
  and does not touch the store.
\<close>

definition bulkSendLog :: "outside \<Rightarrow> jsval \<Rightarrow> world \<Rightarrow> jsval settled \<times> world" where
  "bulkSendLog out logs w = (bulkSend out, emit (BulkSendLog logs) w)"

text \<open>
  Modelled from the spec: \<^verbatim>\<open>sendLog\<close> of services/logger is not among the sources. It
  is the remote sink's single send; the module never reads its result.
\<close>

definition sendLog :: "jsval \<Rightarrow> jsval \<Rightarrow> jsval \<Rightarrow> world \<Rightarrow> world" where
  "sendLog t m x w = emit (SendLog t m x) w"

text \<open>
  \<^verbatim>\<open>NetInfo.fetch()\<close> of the netinfo library, the one-shot probe of the network-status
  source: it resolves with a state or rejects.
\<close>

definition NetInfo_fetch :: "outside \<Rightarrow> world \<Rightarrow> netstate settled \<times> world" where
  "NetInfo_fetch out w = (fetch out, emit NetInfoFetch w)"

section \<open>The flush coordinator\<close>

definition couldnt_clear :: string where
  "couldnt_clear = ''[RNCustomLogger] Couldn't clear logs from local Storage. More detail below''"

definition couldnt_send :: string where
  "couldnt_send = ''[RNCustomLogger] Couldn't send logs in bulk. More detail below''"

definition couldnt_access :: string where
  "couldnt_access = ''[RNCustomLogger] Couldn't access local Storage. More detail below''"

text \<open>
  \<^verbatim>\<open>attemptToEmptyLocalLogs\<close> (logger.js, lines 62 to 107). Every throw inside is caught
  by one of the three handlers, so the promise the function returns always resolves,
  with undefined. A throw of \<^verbatim>\<open>JSON.parse\<close> reaches the outer handler.
\<close>

definition attemptToEmptyLocalLogs :: "env \<Rightarrow> outside \<Rightarrow> world \<Rightarrow> jsval settled \<times> world" where
  "attemptToEmptyLocalLogs E out w =
     (case checkAsyncStorage out (LOGGER E) w of
        (Rejected, w1) \<Rightarrow> (Resolved JUndefined, emit (ConsoleError couldnt_access) w1)
      | (Resolved NoItem, w1) \<Rightarrow> (Resolved JUndefined, w1)
      | (Resolved (Item existingErrorLog), w1) \<Rightarrow>
          if existingErrorLog \<noteq> [] then
            (case JSON_parse E existingErrorLog of
               None \<Rightarrow> (Resolved JUndefined, emit (ConsoleError couldnt_access) w1)
             | Some arryOfLogs \<Rightarrow>
                 (case bulkSendLog out arryOfLogs w1 of
                    (Rejected, w2) \<Rightarrow> (Resolved JUndefined, emit (ConsoleError couldnt_send) w2)
                  | (Resolved result, w2) \<Rightarrow>
                      if truthy result then
                        (case asyncRemoveItem out (LOGGER E) w2 of
                           (Rejected, w3) \<Rightarrow>
                             (Resolved JUndefined, emit (ConsoleError couldnt_clear) w3)
                         | (Resolved err, w3) \<Rightarrow>
                             if truthy err
                             then (Resolved JUndefined, emit (ConsoleError couldnt_clear) w3)
                             else (Resolved JUndefined, w3))
                      else (Resolved JUndefined, w2)))
          else (Resolved JUndefined, w1))"

section \<open>Argument validation\<close>

definition invalid_arguments :: string where
  "invalid_arguments = ''[RNCustomLogger] you passed invalid arguments, message should be a string and extra should be an object''"

text \<open>\<^verbatim>\<open>checkArguments\<close> (logger.js, lines 117 to 132).\<close>

definition checkArguments :: "env \<Rightarrow> jsval \<Rightarrow> jsval \<Rightarrow> jsval \<Rightarrow> world \<Rightarrow> bool \<times> world" where
  "checkArguments E type message extra w =
     (if typeof type = ''string'' \<and> typeof message = ''string'' \<and> typeof extra = ''object''
      then (True, w)
      else (False, if DEV E then emit (ConsoleWarn invalid_arguments) w else w))"

section \<open>Formatting and trimming the buffer\<close>

text \<open>
  \<^verbatim>\<open>formatLogEntry\<close> (logger.js, lines 145 to 153): a copy of the prior log's properties
  with the entry written under the clock's reading. A throw of \<^verbatim>\<open>JSON.stringify\<close> on
  the extra leaves the function.
\<close>

definition formatLogEntry ::
  "env \<Rightarrow> outside \<Rightarrow> jsval \<Rightarrow> jsval \<Rightarrow> jsval \<Rightarrow> jsval \<Rightarrow> error + props" where
  "formatLogEntry E out type message extra parsedErrorLog =
     (let newLog = own_props parsedErrorLog
      in case JSON_stringify E extra of
           None \<Rightarrow> Inl TypeError
         | Some extraText \<Rightarrow>
             Inr (obj_set (now out)
                    (JStr (ToString E type @ '' - '' @ ToString E message @ '' - extra data : ''
                           @ extraText))
                    newLog))"

text \<open>
  The loop of \<^verbatim>\<open>removeKeysFromErrorLog\<close>: \<open>index\<close> runs down from the number of keys
  while it is above half of it, and each turn writes the entry of key \<open>index - 1\<close> to the
  new log.
\<close>

fun removeKeys_loop :: "jsval \<Rightarrow> string list \<Rightarrow> nat \<Rightarrow> nat \<Rightarrow> props \<Rightarrow> props" where
  "removeKeys_loop parsedErrorLog ks currentLogLength 0 newLog = newLog"
| "removeKeys_loop parsedErrorLog ks currentLogLength (Suc i) newLog =
     (if currentLogLength < 2 * Suc i
      then removeKeys_loop parsedErrorLog ks currentLogLength i
             (obj_set (key_at ks i) (prop_get (own_props parsedErrorLog) (key_at ks i)) newLog)
      else newLog)"

text \<open>\<^verbatim>\<open>removeKeysFromErrorLog\<close> (logger.js, lines 166 to 179).\<close>

definition removeKeysFromErrorLog :: "jsval \<Rightarrow> error + props" where
  "removeKeysFromErrorLog parsedErrorLog =
     (case Object_keys parsedErrorLog of
        Inl e \<Rightarrow> Inl e
      | Inr ks \<Rightarrow> Inr (removeKeys_loop parsedErrorLog ks (length ks) (length ks) []))"

section \<open>Local logging and dispatch\<close>

definition couldnt_log_locally :: string where
  "couldnt_log_locally = ''[RNCustomLogger] couldn't log locally. Error detail below''"

definition error_fetching :: string where
  "error_fetching = ''[RNCustomLogger] Error fetching connection state''"

text \<open>
  The argument of each \<^verbatim>\<open>saveInAsyncStorage\<close> call of \<^verbatim>\<open>logLocally\<close>, evaluated before
  the call: \<^verbatim>\<open>JSON.stringify(formatLogEntry(type, message, extra, log))\<close>. A throw of
  either function is handed on.
\<close>

definition stringified_entry ::
  "env \<Rightarrow> outside \<Rightarrow> jsval \<Rightarrow> jsval \<Rightarrow> jsval \<Rightarrow> jsval \<Rightarrow> error + string" where
  "stringified_entry E out type message extra parsedErrorLog =
     (case formatLogEntry E out type message extra parsedErrorLog of
        Inl e \<Rightarrow> Inl e
      | Inr newLog \<Rightarrow>
          (case JSON_stringify E (JObj newLog) of
             None \<Rightarrow> Inl TypeError
           | Some text \<Rightarrow> Inr text))"

text \<open>
  \<^verbatim>\<open>logLocally\<close> (logger.js, lines 188 to 233). Every throw between lines 193 and 223
  (a rejected read, \<^verbatim>\<open>JSON.parse\<close>, \<^verbatim>\<open>Object.keys\<close>, \<^verbatim>\<open>JSON.stringify\<close>) is caught at
  line 224 and reported; nothing is saved then.
\<close>

definition logLocally :: "env \<Rightarrow> outside \<Rightarrow> jsval \<Rightarrow> jsval \<Rightarrow> jsval \<Rightarrow> world \<Rightarrow> world" where
  "logLocally E out type message extra w =
     (if type = JStr ''warn'' \<or> type = JStr ''error'' then
        (case checkAsyncStorage out (LOGGER E) w of
           (Rejected, w1) \<Rightarrow> emit (ConsoleError couldnt_log_locally) w1
         | (Resolved NoItem, w1) \<Rightarrow>
             (case stringified_entry E out type message extra JNull of
                Inl e \<Rightarrow> emit (ConsoleError couldnt_log_locally) w1
              | Inr text \<Rightarrow> saveInAsyncStorage out (LOGGER E) text w1)
         | (Resolved (Item existingErrorLog), w1) \<Rightarrow>
             (let errorLogSize = int (length existingErrorLog) * 8 in
              case JSON_parse E existingErrorLog of
                None \<Rightarrow> emit (ConsoleError couldnt_log_locally) w1
              | Some parsedErrorLog \<Rightarrow>
                  if errorLogSize < MAX_LOCAL_ERROR_LOG_SIZE E then
                    (case stringified_entry E out type message extra parsedErrorLog of
                       Inl e \<Rightarrow> emit (ConsoleError couldnt_log_locally) w1
                     | Inr text \<Rightarrow> saveInAsyncStorage out (LOGGER E) text w1)
                  else
                    (case removeKeysFromErrorLog parsedErrorLog of
                       Inl e \<Rightarrow> emit (ConsoleError couldnt_log_locally) w1
                     | Inr slicedLog \<Rightarrow>
                         (case stringified_entry E out type message extra (JObj slicedLog) of
                            Inl e \<Rightarrow> emit (ConsoleError couldnt_log_locally) w1
                          | Inr text \<Rightarrow> saveInAsyncStorage out (LOGGER E) text w1))))
      else w)"

text \<open>
  \<^verbatim>\<open>mainLog\<close> (logger.js, lines 245 to 286). The value is what the call returns at once;
  the world is the one reached when the promise chain the call started has run to its
  end. A throw in the handler of \<^verbatim>\<open>then\<close> (the read of the generation on absent
  details) goes to the handler of \<^verbatim>\<open>catch\<close>.
\<close>

definition mainLog :: "env \<Rightarrow> outside \<Rightarrow> jsval \<Rightarrow> jsval \<Rightarrow> jsval \<Rightarrow> world \<Rightarrow> jsval \<times> world" where
  "mainLog E out type message extra w =
     (if DEV E then
        (case checkArguments E type message extra w of
           (ok, w1) \<Rightarrow>
             (JBool True, emit (ConsoleLog type message extra) w1))
      else
        (case checkArguments E type message extra w of
           (ok, w1) \<Rightarrow>
             if \<not> ok then (JBool False, w1)
             else
               (JNull,
                case NetInfo_fetch out w1 of
                  (Rejected, w2) \<Rightarrow> emit (ConsoleError error_fetching) w2
                | (Resolved state, w2) \<Rightarrow>
                    (let connectionType = state_type state in
                     case (if connectionType = JStr ''cellular''
                           then cellularGeneration_of (details state) else Inr JNull) of
                       Inl e \<Rightarrow> emit (ConsoleError error_fetching) w2
                     | Inr cellularGeneration \<Rightarrow>
                         if truthy (isConnected state) \<and>
                            (connectionType = JStr ''wifi'' \<or>
                             (connectionType = JStr ''cellular'' \<and>
                              cellularGeneration = JStr ''4g''))
                         then sendLog type message extra w2
                         else logLocally E out type message extra w2))))"

text \<open>A parameter with the default \<^verbatim>\<open>= null\<close> takes it when the argument is undefined.\<close>

definition default_null :: "jsval \<Rightarrow> jsval" where
  "default_null x = (if x = JUndefined then JNull else x)"

text \<open>The exported \<^verbatim>\<open>log\<close>, \<^verbatim>\<open>warn\<close> and \<^verbatim>\<open>error\<close> (logger.js, lines 288 to 298).\<close>

definition log :: "env \<Rightarrow> outside \<Rightarrow> jsval \<Rightarrow> jsval \<Rightarrow> world \<Rightarrow> jsval \<times> world" where
  "log E out message extra w =
     (JUndefined, snd (mainLog E out (JStr ''log'') message (default_null extra) w))"

definition warn :: "env \<Rightarrow> outside \<Rightarrow> jsval \<Rightarrow> jsval \<Rightarrow> world \<Rightarrow> jsval \<times> world" where
  "warn E out message extra w =
     (JUndefined, snd (mainLog E out (JStr ''warn'') message (default_null extra) w))"

definition error :: "env \<Rightarrow> outside \<Rightarrow> jsval \<Rightarrow> jsval \<Rightarrow> world \<Rightarrow> jsval \<times> world" where
  "error E out message extra w =
     (JUndefined, snd (mainLog E out (JStr ''error'') message (default_null extra) w))"

section \<open>Predicates used to state the properties\<close>

text \<open>The batch send settled with a truthy result.\<close>

definition batch_send_succeeded :: "outside \<Rightarrow> bool" where
  "batch_send_succeeded out =
     (case bulkSend out of Resolved result \<Rightarrow> truthy result | Rejected \<Rightarrow> False)"

text \<open>The removal settled with a falsy error.\<close>

definition removal_succeeded :: "outside \<Rightarrow> bool" where
  "removal_succeeded out =
     (case removeItem out of Resolved err \<Rightarrow> \<not> truthy err | Rejected \<Rightarrow> False)"

fun is_batch_send :: "effect \<Rightarrow> bool" where
  "is_batch_send (BulkSendLog logs) = True"
| "is_batch_send e = False"





text \<open>
  The log the new entry is added to, when it can be had: the store answers, and the
  text under the buffer key, if any, parses; at or over the ceiling the parsed log is
  trimmed, which needs a value \<^verbatim>\<open>Object.keys\<close> accepts.
\<close>

definition prior_log :: "env \<Rightarrow> outside \<Rightarrow> world \<Rightarrow> jsval option" where
  "prior_log E out w =
     (if read_fails out then None
      else case storage w (LOGGER E) of
             None \<Rightarrow> Some JNull
           | Some s \<Rightarrow>
               (case JSON_parse E s of
                  None \<Rightarrow> None
                | Some v \<Rightarrow>
                    if int (length s) * 8 < MAX_LOCAL_ERROR_LOG_SIZE E then Some v
                    else (case removeKeysFromErrorLog v of
                            Inl e \<Rightarrow> None
                          | Inr slicedLog \<Rightarrow> Some (JObj slicedLog))))"

section \<open>Concrete surroundings\<close>

text \<open>Five readings of the clock, one second apart, as property keys.\<close>

abbreviation t1 :: string where "t1 \<equiv> ''Mon Jan 01 2024 10:00:01 GMT+0000''"
abbreviation t2 :: string where "t2 \<equiv> ''Mon Jan 01 2024 10:00:02 GMT+0000''"
abbreviation t3 :: string where "t3 \<equiv> ''Mon Jan 01 2024 10:00:03 GMT+0000''"
abbreviation t4 :: string where "t4 \<equiv> ''Mon Jan 01 2024 10:00:04 GMT+0000''"
abbreviation t5 :: string where "t5 \<equiv> ''Mon Jan 01 2024 10:00:05 GMT+0000''"

text \<open>
  A production environment whose \<^verbatim>\<open>JSON.parse\<close> knows one stored text, and an outside
  in which the device is offline while store and remote sink work.
\<close>

definition example_env :: env where
  "example_env =
     \<lparr>DEV = False, LOGGER = ''logger'', MAX_LOCAL_ERROR_LOG_SIZE = 800,
      JSON_parse = (\<lambda>s. if s = ''{t1:A}'' then Some (JObj [(t1, JStr ''A'')]) else None),
      JSON_stringify = (\<lambda>v. if v = JNull then Some ''null'' else Some ''{}''),
      Number_toString = show_int\<rparr>"

definition example_outside :: outside where
  "example_outside =
     \<lparr>now = t5,
      fetch = Resolved \<lparr>isConnected = JBool False, state_type = JStr ''none'', details = JNull\<rparr>,
      read_fails = False, save_fails = False,
      bulkSend = Resolved (JBool True), removeItem = Resolved JNull\<rparr>"


definition empty_world :: world where
  "empty_world = \<lparr>storage = Map.empty, trace = []\<rparr>"

definition buffered_world :: world where
  "buffered_world = \<lparr>storage = [''logger'' \<mapsto> ''{t1:A}''], trace = []\<rparr>"

section \<open>Properties of the classifier\<close>

lemma truthy_present:
  "wf_generation g \<Longrightarrow> truthy g = generation_present g"
  by (cases g) simp_all

lemma absent_not_truthy:
  "\<not> generation_present g \<Longrightarrow> \<not> truthy g"
  by (cases g) simp_all

lemma classifier_startup_or_none_to_wifi:
  assumes "\<not> truthy prevConnectionType \<or> prevConnectionType = JStr ''none''"
  shows "checkUserIsBackOnFullConnection prevConnectionType prevConnectionDetails
           (JStr ''wifi'') connectionDetails = Inr True"
  using assms by (auto simp: checkUserIsBackOnFullConnection_def)

lemma classifier_false_off_wifi_and_off_cellular:
  assumes "connectionType \<noteq> JStr ''wifi''" and "prevConnectionType \<noteq> JStr ''cellular''"
  shows "checkUserIsBackOnFullConnection prevConnectionType prevConnectionDetails
           connectionType connectionDetails = Inr False"
  using assms by (simp add: checkUserIsBackOnFullConnection_def)

text \<open>
  Claim C2. Between two cellular states whose details are objects, the classifier
  answers true exactly when the previous generation is truthy, is not 4g, and the
  current generation is 4g. For a generation as the network-status source reports it,
  truthy is the same as present; and an absent previous generation gives false.
\<close>

theorem classifier_cellular_to_cellular:
  assumes "prevConnectionType = JStr ''cellular''" and "connectionType = JStr ''cellular''"
  shows "checkUserIsBackOnFullConnection prevConnectionType (JObj pd) connectionType (JObj cd) =
           Inr (truthy (generation_in pd) \<and> generation_in pd \<noteq> JStr ''4g'' \<and>
                generation_in cd = JStr ''4g'') \<and>
         (wf_generation (generation_in pd) \<longrightarrow>
            truthy (generation_in pd) = generation_present (generation_in pd)) \<and>
         (\<not> generation_present (generation_in pd) \<longrightarrow>
            checkUserIsBackOnFullConnection prevConnectionType (JObj pd) connectionType (JObj cd) =
              Inr False)"
proof -
  let ?r = "checkUserIsBackOnFullConnection prevConnectionType (JObj pd) connectionType (JObj cd)"
  have main: "?r = Inr (truthy (generation_in pd) \<and> generation_in pd \<noteq> JStr ''4g'' \<and>
                generation_in cd = JStr ''4g'')"
    using assms by (auto simp: checkUserIsBackOnFullConnection_def split: option.splits)
  from main absent_not_truthy [of "generation_in pd"]
  have "\<not> generation_present (generation_in pd) \<longrightarrow> ?r = Inr False"
    by simp
  with main truthy_present [of "generation_in pd"] show ?thesis
    by blast
qed

theorem classifier_cellular_to_cellular_witness:
  "checkUserIsBackOnFullConnection (JStr ''cellular'') (JObj [(''cellularGeneration'', JStr ''3g'')])
      (JStr ''cellular'') (JObj [(''cellularGeneration'', JStr ''4g'')]) = Inr True \<and>
   wf_generation (generation_in [(''cellularGeneration'', JStr ''3g'')]) \<and>
   generation_present (generation_in [(''cellularGeneration'', JStr ''3g'')]) \<and>
   \<not> generation_present (generation_in [(''cellularGeneration'', JNull)]) \<and>
   checkUserIsBackOnFullConnection (JStr ''cellular'') (JObj [(''cellularGeneration'', JNull)])
      (JStr ''cellular'') (JObj [(''cellularGeneration'', JStr ''4g'')]) = Inr False"
  using classifier_cellular_to_cellular
    [of "JStr ''cellular''" "JStr ''cellular''" "[(''cellularGeneration'', JStr ''3g'')]"
        "[(''cellularGeneration'', JStr ''4g'')]"]
    classifier_cellular_to_cellular
    [of "JStr ''cellular''" "JStr ''cellular''" "[(''cellularGeneration'', JNull)]"
        "[(''cellularGeneration'', JStr ''4g'')]"]
  by simp

text \<open>
  Claim C3. The classifier is to answer false whenever the current medium is not wifi
  and the pair is not a cellular upgrade. When a device on 3g loses its connection, the
  current state has the type none and null details: the previous generation is truthy
  and not 4g, so line 42 reads the generation of null and the call throws a TypeError
  instead of returning false.
\<close>

theorem classifier_throws_going_offline_from_3g:
  "checkUserIsBackOnFullConnection (JStr ''cellular'') (JObj [(''cellularGeneration'', JStr ''3g'')])
      (JStr ''none'') JNull = Inl TypeError"
  by (simp add: checkUserIsBackOnFullConnection_def)

text \<open>
  Claim C7. From a previous medium that is absent, none or unknown to wifi the
  classifier is to answer true. Line 34 compares the previous type with the text
  unknow, which no state carries, so from the type unknown to wifi the call returns
  false.
\<close>

theorem classifier_unknown_to_wifi_is_false:
  "checkUserIsBackOnFullConnection (JStr ''unknown'') JNull (JStr ''wifi'') (JObj []) = Inr False"
  by (simp add: checkUserIsBackOnFullConnection_def)

text \<open>
  Claim C9. When the previous medium is cellular and the previous details are null or
  undefined, the classifier throws a TypeError, whatever the current state is: it
  returns a boolean only if cellular previous details are present.
\<close>

theorem classifier_throws_on_absent_previous_details:
  assumes "prevConnectionDetails = JNull \<or> prevConnectionDetails = JUndefined"
  shows "checkUserIsBackOnFullConnection (JStr ''cellular'') prevConnectionDetails
           connectionType connectionDetails = Inl TypeError"
  using assms by (auto simp: checkUserIsBackOnFullConnection_def)

theorem classifier_throws_on_absent_previous_details_witness:
  "checkUserIsBackOnFullConnection (JStr ''cellular'') JNull (JStr ''wifi'') (JObj []) =
     Inl TypeError"
  using classifier_throws_on_absent_previous_details [of JNull "JStr ''wifi''" "JObj []"]
  by simp

section \<open>Effects of the helpers\<close>

lemma storage_emit [simp]: "storage (emit e w) = storage w"
  by (simp add: emit_def)

lemma performed_emit1 [simp]: "performed w (emit a w) = [a]"
  by (simp add: performed_def emit_def)

lemma performed_save2 [simp]:
  "performed w (saveInAsyncStorage out k s (emit b (emit a w))) = [a, b, SaveInAsyncStorage k s]"
  by (simp add: performed_def emit_def saveInAsyncStorage_def)


lemma Object_keys_defined:
  "v \<noteq> JNull \<Longrightarrow> v \<noteq> JUndefined \<Longrightarrow> \<exists>ks. Object_keys v = Inr ks"
  by (cases v) auto

lemma map_of_update_in_place:
  "k \<in> fst ` set ps \<Longrightarrow>
   map_of (map (\<lambda>(k', v'). if k' = k then (k', v) else (k', v')) ps) k = Some v"
  by (induction ps) auto

lemma map_of_insert_index:
  "map_of (obj_insert_index k v ps) k = Some v"
  by (induction ps) auto

text \<open>A value written under a key other than \<^verbatim>\<open>__proto__\<close> is read back under it.\<close>

lemma prop_get_obj_set:
  assumes "k \<noteq> ''__proto__''"
  shows "prop_get (obj_set k v ps) k = v"
proof (cases "k \<in> fst ` set ps")
  case True
  then show ?thesis
    by (simp add: obj_set_def prop_get_def map_of_update_in_place)
next
  case False
  then have "map_of ps k = None"
    by (simp add: map_of_eq_None_iff)
  with False assms show ?thesis
    by (simp add: obj_set_def prop_get_def map_of_insert_index map_add_def)
qed

text \<open>The formatted log holds the new entry under the clock's reading.\<close>

lemma formatLogEntry_holds_entry:
  assumes "formatLogEntry E out type message extra prior = Inr newLog"
    and "now out \<noteq> ''__proto__''"
  shows "\<exists>extraText. JSON_stringify E extra = Some extraText \<and>
           prop_get newLog (now out) =
             JStr (ToString E type @ '' - '' @ ToString E message @ '' - extra data : ''
                   @ extraText)"
  using assms
  by (auto simp: formatLogEntry_def prop_get_obj_set split: option.splits)

section \<open>Properties of the flush coordinator\<close>

text \<open>
  Claim C1. \<^verbatim>\<open>attemptToEmptyLocalLogs\<close> always completes, resolving with undefined. On
  an absent buffer it sends nothing, removes nothing and leaves the store as it was. On
  a present buffer it calls the removal exactly when a batch send was made and reported
  success, the buffer key is empty afterwards exactly when moreover the removal
  succeeded, and in every other case (no send, a falsy result, a rejected send) the
  whole store is what it was before the call. A readable, non-empty buffer that parses
  is sent in one batch.
\<close>

theorem attemptToEmptyLocalLogs_flush:
  assumes "attemptToEmptyLocalLogs E out w = (r, w')"
  shows "r = Resolved JUndefined \<and>
    (storage w (LOGGER E) = None \<longrightarrow>
       storage w' = storage w \<and> \<not> list_ex is_batch_send (performed w w') \<and>
       AsyncRemoveItem (LOGGER E) \<notin> set (performed w w')) \<and>
    (storage w (LOGGER E) \<noteq> None \<longrightarrow>
       (AsyncRemoveItem (LOGGER E) \<in> set (performed w w') \<longleftrightarrow>
          list_ex is_batch_send (performed w w') \<and> batch_send_succeeded out) \<and>
       (storage w' (LOGGER E) = None \<longleftrightarrow>
          list_ex is_batch_send (performed w w') \<and> batch_send_succeeded out \<and>
          removal_succeeded out) \<and>
       (\<not> (list_ex is_batch_send (performed w w') \<and> batch_send_succeeded out) \<longrightarrow>
          storage w' = storage w)) \<and>
    (\<not> read_fails out \<and> storage w (LOGGER E) = Some s \<and> s \<noteq> [] \<and>
     JSON_parse E s = Some logs \<longrightarrow>
       BulkSendLog logs \<in> set (performed w w'))"
  using assms
  by (auto simp: attemptToEmptyLocalLogs_def checkAsyncStorage_def bulkSendLog_def
      asyncRemoveItem_def emit_def performed_def batch_send_succeeded_def removal_succeeded_def
      split: if_splits option.splits settled.splits stored.splits prod.splits)

theorem attemptToEmptyLocalLogs_flush_witness:
  "fst (attemptToEmptyLocalLogs example_env example_outside buffered_world) = Resolved JUndefined \<and>
   storage buffered_world (LOGGER example_env) = Some ''{t1:A}'' \<and>
   batch_send_succeeded example_outside \<and>
   performed buffered_world
     (snd (attemptToEmptyLocalLogs example_env example_outside buffered_world)) =
     [CheckAsyncStorage ''logger'', BulkSendLog (JObj [(t1, JStr ''A'')]),
      AsyncRemoveItem ''logger''] \<and>
   storage (snd (attemptToEmptyLocalLogs example_env example_outside buffered_world))
     ''logger'' = None"
  using attemptToEmptyLocalLogs_flush
    [of example_env example_outside buffered_world
        "fst (attemptToEmptyLocalLogs example_env example_outside buffered_world)"
        "snd (attemptToEmptyLocalLogs example_env example_outside buffered_world)"
        "''{t1:A}''" "JObj [(t1, JStr ''A'')]"]
  by (simp add: attemptToEmptyLocalLogs_def checkAsyncStorage_def bulkSendLog_def
      asyncRemoveItem_def emit_def performed_def batch_send_succeeded_def
      example_env_def example_outside_def buffered_world_def)

section \<open>Properties of argument validation\<close>

text \<open>
  Claim C8. In normal mode, a call of \<^verbatim>\<open>mainLog\<close> whose type or message is not a
  string, or whose extra is not of type object, returns false and does nothing: no
  probe, no send, no write to the buffer, no output.
\<close>

theorem mainLog_rejects_invalid_arguments:
  assumes "\<not> DEV E"
    and "typeof type \<noteq> ''string'' \<or> typeof message \<noteq> ''string'' \<or> typeof extra \<noteq> ''object''"
  shows "mainLog E out type message extra w = (JBool False, w) \<and> performed w w = []"
  using assms by (auto simp: mainLog_def checkArguments_def performed_def)

theorem mainLog_rejects_invalid_arguments_witness:
  "\<not> DEV example_env \<and> typeof (JNum 5) \<noteq> ''string'' \<and>
   mainLog example_env example_outside (JStr ''error'') (JNum 5) JNull empty_world =
     (JBool False, empty_world)"
  using mainLog_rejects_invalid_arguments
    [of example_env "JStr ''error''" "JNum 5" JNull example_outside empty_world]
  by (simp add: example_env_def)

text \<open>
  Claim C10. With a string type and a string message, \<^verbatim>\<open>checkArguments\<close> accepts the
  extras null, any array and any object. It rejects an undefined extra and every
  boolean, number or string extra, whatever type and message are. The exported
  \<^verbatim>\<open>log\<close>, \<^verbatim>\<open>warn\<close> and \<^verbatim>\<open>error\<close> called without an extra pass null to \<^verbatim>\<open>mainLog\<close>,
  which is of type object, so with a string message the check succeeds.
\<close>

theorem checkArguments_extra:
  "fst (checkArguments E (JStr t) (JStr m) JNull w) \<and>
   fst (checkArguments E (JStr t) (JStr m) (JArr vs) w) \<and>
   fst (checkArguments E (JStr t) (JStr m) (JObj ps) w) \<and>
   \<not> fst (checkArguments E type message JUndefined w) \<and>
   \<not> fst (checkArguments E type message (JBool b) w) \<and>
   \<not> fst (checkArguments E type message (JNum n) w) \<and>
   \<not> fst (checkArguments E type message (JStr s) w) \<and>
   log E out message JUndefined w =
     (JUndefined, snd (mainLog E out (JStr ''log'') message JNull w)) \<and>
   warn E out message JUndefined w =
     (JUndefined, snd (mainLog E out (JStr ''warn'') message JNull w)) \<and>
   error E out message JUndefined w =
     (JUndefined, snd (mainLog E out (JStr ''error'') message JNull w)) \<and>
   typeof (default_null JUndefined) = ''object'' \<and>
   fst (checkArguments E (JStr ''log'') (JStr m) (default_null JUndefined) w) \<and>
   fst (checkArguments E (JStr ''warn'') (JStr m) (default_null JUndefined) w) \<and>
   fst (checkArguments E (JStr ''error'') (JStr m) (default_null JUndefined) w)"
  by (simp add: checkArguments_def log_def warn_def error_def default_null_def)

section \<open>Properties of dispatch\<close>





lemma prior_log_emit [simp]: "prior_log E out (emit e w) = prior_log E out w"
  by (simp add: prior_log_def emit_def)


lemma performed_emit3 [simp]: "performed w (emit c (emit b (emit a w))) = [a, b, c]"
  by (simp add: performed_def emit_def)




section \<open>Properties of trimming\<close>

lemma obj_set_fresh:
  "k \<notin> fst ` set ps \<Longrightarrow> \<not> is_array_index k \<Longrightarrow> k \<noteq> ''__proto__'' \<Longrightarrow>
   obj_set k v ps = ps @ [(k, v)]"
  by (simp add: obj_set_def)

lemma prop_get_nth:
  "distinct (map fst ps) \<Longrightarrow> i < length ps \<Longrightarrow> prop_get ps (fst (ps ! i)) = snd (ps ! i)"
proof -
  assume d: "distinct (map fst ps)" and i: "i < length ps"
  from i have "(fst (ps ! i), snd (ps ! i)) \<in> set ps"
    by simp
  with d have "map_of ps (fst (ps ! i)) = Some (snd (ps ! i))"
    by (rule map_of_is_SomeI)
  then show ?thesis
    by (simp add: prop_get_def)
qed

text \<open>
  On a log with distinct keys, none an array index or \<^verbatim>\<open>__proto__\<close>, the loop started
  at \<open>i\<close> appends to the new log the entries from position \<open>i - 1\<close> down to the middle,
  in that order.
\<close>

lemma removeKeys_loop_last_half:
  assumes "distinct (map fst ps)"
    and "\<forall>k \<in> fst ` set ps. \<not> is_array_index k \<and> k \<noteq> ''__proto__''"
    and "i \<le> length ps" and "fst ` set acc \<subseteq> fst ` set (drop i ps)"
  shows "removeKeys_loop (JObj ps) (map fst ps) (length ps) i acc =
           acc @ rev (drop (length ps div 2) (take i ps))"
  using assms
proof (induction i arbitrary: acc)
  case 0
  then show ?case by simp
next
  case (Suc i)
  let ?n = "length ps"
  show ?case
  proof (cases "?n < 2 * Suc i")
    case False
    then have "Suc i \<le> ?n div 2" by simp
    then have "drop (?n div 2) (take (Suc i) ps) = []" by simp
    with False show ?thesis by simp
  next
    case True
    from Suc.prems have i: "i < ?n" by simp
    have key: "key_at (map fst ps) i = fst (ps ! i)"
      using i by (simp add: key_at_def)
    have val: "prop_get ps (fst (ps ! i)) = snd (ps ! i)"
      using Suc.prems(1) i by (rule prop_get_nth)
    have notin_drop: "fst (ps ! i) \<notin> fst ` set (drop (Suc i) ps)"
    proof
      assume "fst (ps ! i) \<in> fst ` set (drop (Suc i) ps)"
      then obtain x where x: "x \<in> set (drop (Suc i) ps)" "fst x = fst (ps ! i)"
        by force
      then obtain j where j: "j < length (drop (Suc i) ps)" "drop (Suc i) ps ! j = x"
        by (auto simp: in_set_conv_nth)
      then have "Suc i + j < ?n" and "ps ! (Suc i + j) = x"
        by simp_all
      with x(2) have same: "map fst ps ! (Suc i + j) = map fst ps ! i"
        using i by simp
      have "Suc i + j < length (map fst ps)" and "i < length (map fst ps)"
        using \<open>Suc i + j < ?n\<close> i by simp_all
      with Suc.prems(1) same have "Suc i + j = i"
        using nth_eq_iff_index_eq [of "map fst ps" "Suc i + j" i] by blast
      then show False by simp
    qed
    with Suc.prems(4) have fresh: "fst (ps ! i) \<notin> fst ` set acc" by blast
    have "fst (ps ! i) \<in> fst ` set ps"
      using i by simp
    with Suc.prems(2) have noidx: "\<not> is_array_index (fst (ps ! i))"
      and noproto: "fst (ps ! i) \<noteq> ''__proto__''"
      by blast+
    have step: "obj_set (fst (ps ! i)) (snd (ps ! i)) acc = acc @ [ps ! i]"
      using fresh noidx noproto by (simp add: obj_set_fresh)
    have sub: "fst ` set (acc @ [ps ! i]) \<subseteq> fst ` set (drop i ps)"
      using Suc.prems(4) i by (auto simp: Cons_nth_drop_Suc [symmetric])
    have ih: "removeKeys_loop (JObj ps) (map fst ps) ?n i (acc @ [ps ! i]) =
                (acc @ [ps ! i]) @ rev (drop (?n div 2) (take i ps))"
      using Suc.IH [OF Suc.prems(1) Suc.prems(2) _ sub] i by simp
    have half: "?n div 2 \<le> i" using True by simp
    have "drop (?n div 2) (take (Suc i) ps) = drop (?n div 2) (take i ps) @ [ps ! i]"
      using i half by (simp add: take_Suc_conv_app_nth)
    with True key val step ih show ?thesis by simp
  qed
qed

text \<open>
  So the trimmed log holds the last \<open>\<lceil>N/2\<rceil>\<close> entries of the key order, keys and values
  unchanged, written last entry first.
\<close>

lemma removeKeysFromErrorLog_last_half_reversed:
  assumes "distinct (map fst ps)"
    and "\<forall>k \<in> fst ` set ps. \<not> is_array_index k \<and> k \<noteq> ''__proto__''"
  shows "removeKeysFromErrorLog (JObj ps) = Inr (rev (drop (length ps div 2) ps))"
  using removeKeys_loop_last_half [OF assms, of "length ps" "[]"]
  by (simp add: removeKeysFromErrorLog_def)

lemma removeKeysFromErrorLog_size:
  assumes "distinct (map fst ps)"
    and "\<forall>k \<in> fst ` set ps. \<not> is_array_index k \<and> k \<noteq> ''__proto__''"
    and "removeKeysFromErrorLog (JObj ps) = Inr qs"
  shows "length qs = (length ps + 1) div 2"
  using assms removeKeysFromErrorLog_last_half_reversed [of ps] by auto

text \<open>
  What \<^verbatim>\<open>logLocally\<close> stores when the stored text is at or over the ceiling: the
  trimmed log with the new entry written to it.
\<close>

lemma logLocally_trims_then_appends:
  assumes "type = JStr ''warn'' \<or> type = JStr ''error''"
    and "\<not> read_fails out" and "\<not> save_fails out"
    and "storage w (LOGGER E) = Some s" and "JSON_parse E s = Some parsedErrorLog"
    and "MAX_LOCAL_ERROR_LOG_SIZE E \<le> int (length s) * 8"
    and "removeKeysFromErrorLog parsedErrorLog = Inr slicedLog"
    and "formatLogEntry E out type message extra (JObj slicedLog) = Inr newLog"
    and "JSON_stringify E (JObj newLog) = Some text"
  shows "storage (logLocally E out type message extra w) (LOGGER E) = Some text"
  using assms
  by (auto simp: logLocally_def checkAsyncStorage_def saveInAsyncStorage_def emit_def
      stringified_entry_def)

text \<open>
  Claim C4. Trimming is to retain exactly the chronologically newest \<open>\<lceil>N/2\<rceil>\<close> entries.
  A log of four entries written at \<open>t1\<close> to \<open>t4\<close> is trimmed to \<open>t4\<close>, \<open>t3\<close>, in that key
  order; \<^verbatim>\<open>logLocally\<close> then appends the entry of \<open>t5\<close> and stores the result. Trimming
  that stored log of three retains \<open>t5\<close> and \<open>t3\<close> and discards \<open>t4\<close>, which is newer
  than \<open>t3\<close>.
\<close>

theorem second_trim_discards_newer_entry:
  "removeKeysFromErrorLog
     (JObj [(t1, JStr ''a''), (t2, JStr ''b''), (t3, JStr ''c''), (t4, JStr ''d'')])
   = Inr [(t4, JStr ''d''), (t3, JStr ''c'')] \<and>
   formatLogEntry example_env example_outside (JStr ''error'') (JStr ''E'') JNull
     (JObj [(t4, JStr ''d''), (t3, JStr ''c'')])
   = Inr [(t4, JStr ''d''), (t3, JStr ''c''), (t5, JStr ''error - E - extra data : null'')] \<and>
   removeKeysFromErrorLog
     (JObj [(t4, JStr ''d''), (t3, JStr ''c''), (t5, JStr ''error - E - extra data : null'')])
   = Inr [(t5, JStr ''error - E - extra data : null''), (t3, JStr ''c'')]"
  by (simp add: removeKeysFromErrorLog_def key_at_def prop_get_def obj_set_def
      formatLogEntry_def example_env_def example_outside_def
      is_array_index_def digit_chars_def)

text \<open>
  Claim C5. Every update of the buffer is to keep its insertion order chronological.
  Appending does; trimming a log written at \<open>t1\<close> to \<open>t4\<close> yields a log whose key order
  is \<open>t4\<close>, \<open>t3\<close>: the retained entries are written newest first.
\<close>

theorem trim_writes_newest_first:
  "removeKeysFromErrorLog
     (JObj [(t1, JStr ''a''), (t2, JStr ''b''), (t3, JStr ''c''), (t4, JStr ''d'')])
   = Inr [(t4, JStr ''d''), (t3, JStr ''c'')] \<and>
   formatLogEntry example_env example_outside (JStr ''error'') (JStr ''E'') JNull
     (JObj [(t1, JStr ''a''), (t2, JStr ''b'')])
   = Inr [(t1, JStr ''a''), (t2, JStr ''b''), (t5, JStr ''error - E - extra data : null'')]"
  by (simp add: removeKeysFromErrorLog_def key_at_def prop_get_def obj_set_def
      formatLogEntry_def example_env_def example_outside_def
      is_array_index_def digit_chars_def)

end
